theory Spec2Isabelle
  imports Complex_Main
begin

section \<open>Distributed masked-language-model training script (cuda-oas-mlm-train-ddp.py)\<close>

text \<open>
  A shallow embedding of the script's own logic: the rank and world-size arithmetic, the
  environment variables it writes, the arguments it hands to the framework's constructors,
  the training loop with its stepping and logging conditions, and \<open>calc_perplexity\<close>.
  The deep-learning framework is not part of the script. Its calls appear as entries of a
  call trace, as small functions with the framework's documented behaviour, or as fields
  of a record of oracles (the losses and gradients a forward or backward pass produces).
  Console messages other than the metric reports are left out, they change no state.
\<close>

subsection \<open>Python exceptions as values\<close>

datatype error =
    KeyError | ValueError | TypeError | ZeroDivisionError | OverflowError | AttributeError
  | JSONDecodeError

definition and_then :: "error + 'a \<Rightarrow> ('a \<Rightarrow> error + 'b) \<Rightarrow> error + 'b" where
  "and_then r f = (case r of Inl e \<Rightarrow> Inl e | Inr v \<Rightarrow> f v)"

text \<open>\<^verbatim>\<open>a % b\<close> on Python integers: floor modulus, the sign of the divisor, an exception at zero.\<close>

definition py_mod :: "int \<Rightarrow> int \<Rightarrow> error + int" where
  "py_mod a b = (if b = 0 then Inl ZeroDivisionError else Inr (a mod b))"

text \<open>\<^verbatim>\<open>xs.index(x)\<close>: the first position of \<open>x\<close>, ValueError when it is absent.\<close>

fun list_index :: "'a list \<Rightarrow> 'a \<Rightarrow> error + nat" where
  "list_index [] x = Inl ValueError"
| "list_index (y # ys) x =
     (if y = x then Inr 0 else and_then (list_index ys x) (\<lambda>i. Inr (Suc i)))"

text \<open>\<^verbatim>\<open>str(n)\<close> of a Python integer: decimal digits, a minus sign when negative.\<close>

definition digit_char :: "nat \<Rightarrow> char" where
  "digit_char d = char_of (48 + d)"

fun str_nat :: "nat \<Rightarrow> string" where
  "str_nat n = (if n < 10 then [digit_char n] else str_nat (n div 10) @ [digit_char (n mod 10)])"

declare str_nat.simps [simp del]

definition str_int :: "int \<Rightarrow> string" where
  "str_int i = (if i < 0 then CHR ''-'' # str_nat (nat (- i)) else str_nat (nat i))"

subsection \<open>Command-line arguments (the namespace returned by parse_args)\<close>

record args =
  lr :: real
  lr_scheduler_type :: string
  max_length :: int
  model_dir :: string
  model_id :: string
  num_epochs :: int
  num_warmup_steps :: int
  per_device_eval_batch_size :: int
  per_device_train_batch_size :: int
  seed :: "int option"
  training_dir :: string
  test_dir :: string
  logging_steps :: int
  gradient_accumulation_steps :: int
  train_sample_count :: "int option"
  steps_this_run :: "int option"
  pretrain :: int
  hosts :: "string list"
  current_host :: string
  num_gpus :: int

subsection \<open>Process state: the environment and the framework calls made so far\<close>

datatype call =
    SetEnv string string
  | Spawn int
  | InitProcessGroup string int int
  | SetSeed int
  | SetEpoch nat
  | Barrier
  | SaveCheckpoint string

record proc =
  environ :: "string \<rightharpoonup> string"
  trace :: "call list"

definition issue :: "call \<Rightarrow> proc \<Rightarrow> proc" where
  "issue c p = p\<lparr>trace := trace p @ [c]\<rparr>"

text \<open>\<^verbatim>\<open>os.environ[k] = v\<close> for a string \<open>v\<close>.\<close>

definition os_environ_set :: "string \<Rightarrow> string \<Rightarrow> proc \<Rightarrow> proc" where
  "os_environ_set k v p = issue (SetEnv k v) (p\<lparr>environ := (environ p)(k \<mapsto> v)\<rparr>)"


subsection \<open>The main block (lines 483 to 494)\<close>

text \<open>
  Values decoded by \<^verbatim>\<open>json.loads\<close>. The decoder belongs to the standard library and is a
  parameter of \<open>main\<close>; an object is the association list of its keys.
\<close>

datatype json =
    JNull | JBool bool | JNumber int | JString string | JArray "json list"
  | JObject "(string \<times> json) list"




subsection \<open>The worker: process-group initialisation (lines 204 to 224)\<close>

definition init_process_group :: "string \<Rightarrow> int \<Rightarrow> int \<Rightarrow> proc \<Rightarrow> proc" where
  "init_process_group backend world_size rank p = issue (InitProcessGroup backend world_size rank) p"

definition worker_init :: "int \<Rightarrow> args \<Rightarrow> proc \<Rightarrow> error + (int \<times> int \<times> proc)" where
  "worker_init local_rank a p =
     (let world_size = int (length (hosts a)) * num_gpus a;
          p1 = os_environ_set ''WORLD_SIZE'' (str_int world_size) p
      in and_then (list_index (hosts a) (current_host a)) (\<lambda>node_id.
           let global_rank = int node_id * num_gpus a + local_rank;
               p2 = os_environ_set ''RANK'' (str_int global_rank) p1;
               p3 = init_process_group ''nccl'' world_size global_rank p2
           in Inr (world_size, global_rank, p3)))"


subsection \<open>The worker: data sharding (lines 246 to 284)\<close>

text \<open>
  The framework's sampler object. Its constructor refuses a rank outside
  \<open>[0, num_replicas)\<close> and gives every replica \<open>ceil(len(dataset) / num_replicas)\<close> samples.
  The object defines \<^verbatim>\<open>__len__\<close>, so Python takes it for false exactly when it has no sample.
\<close>

record sampler =
  num_replicas :: int
  sampler_rank :: int
  sampler_shuffle :: bool
  num_samples :: nat

definition DistributedSampler :: "nat \<Rightarrow> int \<Rightarrow> int \<Rightarrow> bool \<Rightarrow> error + sampler" where
  "DistributedSampler dataset_len replicas rk shuf =
     (if rk \<ge> replicas \<or> rk < 0 then Inl ValueError
      else Inr \<lparr>num_replicas = replicas, sampler_rank = rk, sampler_shuffle = shuf,
                num_samples = (dataset_len + nat replicas - 1) div nat replicas\<rparr>)"

definition truthy :: "sampler \<Rightarrow> bool" where
  "truthy s = (num_samples s \<noteq> 0)"

text \<open>
  The framework's loader object. Its constructor refuses a sampler together with
  \<^verbatim>\<open>shuffle=True\<close>, and a batch size that is not positive; it yields
  \<open>ceil(len(sampler) / batch_size)\<close> batches.
\<close>

record loader =
  batch_size :: int
  loader_sampler :: sampler
  loader_shuffle :: bool

definition DataLoader :: "int \<Rightarrow> sampler \<Rightarrow> bool \<Rightarrow> error + loader" where
  "DataLoader bs s shuf =
     (if shuf then Inl ValueError
      else if bs \<le> 0 then Inl ValueError
      else Inr \<lparr>batch_size = bs, loader_sampler = s, loader_shuffle = shuf\<rparr>)"


text \<open>The keyword arguments the worker passes: batch size, sampler, shuffle flag.\<close>

definition train_loader_kwargs :: "args \<Rightarrow> sampler \<Rightarrow> int \<times> sampler \<times> bool" where
  "train_loader_kwargs a train_sampler =
     (per_device_train_batch_size a, train_sampler, (if truthy train_sampler then False else True))"

definition eval_loader_kwargs :: "args \<Rightarrow> sampler \<Rightarrow> int \<times> sampler \<times> bool" where
  "eval_loader_kwargs a test_sampler =
     (per_device_eval_batch_size a, test_sampler, (if truthy test_sampler then False else True))"

definition make_loaders ::
  "nat \<Rightarrow> nat \<Rightarrow> args \<Rightarrow> int \<Rightarrow> int \<Rightarrow> error + (sampler \<times> sampler \<times> loader \<times> loader)" where
  "make_loaders len_train len_test a world_size global_rank =
     and_then (DistributedSampler len_train world_size global_rank True) (\<lambda>train_sampler.
     and_then (DistributedSampler len_test world_size global_rank True) (\<lambda>test_sampler.
     and_then (case train_loader_kwargs a train_sampler of (bs, s, shuf) \<Rightarrow> DataLoader bs s shuf)
       (\<lambda>train_loader.
     and_then (case eval_loader_kwargs a test_sampler of (bs, s, shuf) \<Rightarrow> DataLoader bs s shuf)
       (\<lambda>eval_loader.
       Inr (train_sampler, test_sampler, train_loader, eval_loader)))))"

subsection \<open>The worker: device and model (lines 311 to 326)\<close>


record esm_config =
  vocab_list :: "string list option"
  vocab_size :: int
  other_settings :: "(string \<times> int) list"

datatype weights = Pretrained string | RandomInit

record esm_model =
  config :: esm_config
  weights :: weights

text \<open>
  \<^verbatim>\<open>EsmForMaskedLM.from_pretrained(model_id)\<close> loads the checkpoint's configuration (an oracle)
  and its weights; \<^verbatim>\<open>EsmForMaskedLM(config)\<close> builds a model with freshly initialised weights.
\<close>

definition from_pretrained :: "(string \<Rightarrow> esm_config) \<Rightarrow> string \<Rightarrow> esm_model" where
  "from_pretrained pretrained_config mid = \<lparr>config = pretrained_config mid, weights = Pretrained mid\<rparr>"

definition EsmForMaskedLM :: "esm_config \<Rightarrow> esm_model" where
  "EsmForMaskedLM c = \<lparr>config = c, weights = RandomInit\<rparr>"

definition load_model :: "(string \<Rightarrow> esm_config) \<Rightarrow> string list \<Rightarrow> args \<Rightarrow> esm_model" where
  "load_model pretrained_config default_vocab_list a =
     (let model = from_pretrained pretrained_config (model_id a)
      in if pretrain a \<noteq> 0
         then (let my_config = config model;
                   my_config = my_config\<lparr>vocab_list := Some default_vocab_list\<rparr>;
                   my_config = my_config\<lparr>vocab_size := int (length default_vocab_list)\<rparr>
               in EsmForMaskedLM my_config)
         else model)"

record ddp =
  ddp_module :: esm_model
  module_device :: string
  device_ids :: "int list"
  find_unused_parameters :: bool


subsection \<open>Metric reports (lines 167 to 191)\<close>

text \<open>
  A loss is a real number here: rounding, NaN and infinite inputs are not modelled.
  \<^verbatim>\<open>math.exp\<close> raises OverflowError when its result exceeds the largest finite double.
\<close>

definition DBL_MAX :: real where
  "DBL_MAX = (2 ^ 53 - 1) * 2 ^ 971"

definition math_exp :: "real \<Rightarrow> error + real" where
  "math_exp x = (if exp x > DBL_MAX then Inl OverflowError else Inr (exp x))"

datatype pyfloat = Finite real | PosInf

text \<open>\<^verbatim>\<open>try: body except exc: handler\<close>, for a body and a handler that compute a value.\<close>

definition try_except :: "error + 'a \<Rightarrow> error \<Rightarrow> 'a \<Rightarrow> error + 'a" where
  "try_except body exc handler =
     (case body of Inr v \<Rightarrow> Inr v | Inl e \<Rightarrow> if e = exc then Inr handler else Inl e)"

definition calc_perplexity :: "real \<Rightarrow> error + pyfloat" where
  "calc_perplexity loss =
     try_except (and_then (math_exp loss) (\<lambda>perplexity. Inr (Finite perplexity)))
       OverflowError PosInf"

text \<open>
  The loss handed to \<open>report_metrics\<close> is a tensor, or the Python integer the evaluation
  loop starts its running sum with; only a tensor has \<^verbatim>\<open>detach\<close>.
\<close>

datatype pynum = PyInt int | Tensor real

fun detach_float :: "pynum \<Rightarrow> error + real" where
  "detach_float (Tensor t) = Inr t"
| "detach_float (PyInt i) = Inl AttributeError"

fun add_tensor :: "pynum \<Rightarrow> real \<Rightarrow> pynum" where
  "add_tensor (PyInt i) t = Tensor (of_int i + t)"
| "add_tensor (Tensor s) t = Tensor (s + t)"

text \<open>
  A printed line. The two throughput figures of the line are quotients by a wall-clock
  duration and are not part of the model.
\<close>

record report =
  report_epoch :: nat
  report_step :: int
  report_prefix :: string
  report_loss :: real
  report_perplexity :: pyfloat

definition report_metrics ::
  "int \<Rightarrow> pynum \<Rightarrow> nat \<Rightarrow> int \<Rightarrow> string option \<Rightarrow> report list \<Rightarrow> error + report list" where
  "report_metrics rank loss epoch steps prefix out =
     and_then (detach_float loss) (\<lambda>reported_loss.
     and_then (calc_perplexity reported_loss) (\<lambda>perplexity.
       let prefix' = (case prefix of None \<Rightarrow> ''None''
                      | Some s \<Rightarrow> if s \<noteq> [] then s @ '' '' else s)
       in Inr (if rank = 0
               then out @ [\<lparr>report_epoch = epoch, report_step = steps, report_prefix = prefix',
                            report_loss = reported_loss, report_perplexity = perplexity\<rparr>]
               else out)))"

subsection \<open>The training loop (lines 369 to 445)\<close>

text \<open>
  What the framework computes is a record of oracles. \<open>'p\<close> stands for the parameters
  together with the optimizer's own state, \<open>'g\<close> for a gradient. The forward pass gives
  the loss of this rank's batch; \<^verbatim>\<open>loss.backward()\<close> adds the batch's gradient to the
  gradient buffer; \<^verbatim>\<open>optimizer.zero_grad()\<close> clears the buffer; \<^verbatim>\<open>optimizer.step()\<close>
  updates the parameters from the buffer. The evaluation sampler is never given an epoch,
  so an evaluation batch depends on its index only.
\<close>

record ('p, 'g) framework =
  forward_loss :: "'p \<Rightarrow> int \<Rightarrow> nat \<Rightarrow> nat \<Rightarrow> real"
  backward_grad :: "'p \<Rightarrow> int \<Rightarrow> nat \<Rightarrow> nat \<Rightarrow> 'g"
  optimizer_update :: "nat \<Rightarrow> 'p \<Rightarrow> 'g \<Rightarrow> 'p"
  eval_forward_loss :: "'p \<Rightarrow> int \<Rightarrow> nat \<Rightarrow> real"

record ('p, 'g) tstate =
  params :: 'p
  grad :: 'g
  applied :: "'g list"
  scheduler_steps :: nat
  progress_bar :: nat
  completed_steps :: int
  reports :: "report list"
  calls :: "call list"

definition zero_grad :: "('p, 'g::monoid_add) tstate \<Rightarrow> ('p, 'g) tstate" where
  "zero_grad st = st\<lparr>grad := 0\<rparr>"

definition backward :: "'g \<Rightarrow> ('p, 'g::monoid_add) tstate \<Rightarrow> ('p, 'g) tstate" where
  "backward g st = st\<lparr>grad := grad st + g\<rparr>"

definition lr_scheduler_step :: "('p, 'g) tstate \<Rightarrow> ('p, 'g) tstate" where
  "lr_scheduler_step st = st\<lparr>scheduler_steps := Suc (scheduler_steps st)\<rparr>"

text \<open>\<open>applied\<close> keeps, in order, the gradient each optimizer step has used.\<close>

definition optimizer_step :: "('p, 'g) framework \<Rightarrow> ('p, 'g) tstate \<Rightarrow> ('p, 'g) tstate" where
  "optimizer_step fw st =
     st\<lparr>params := optimizer_update fw (scheduler_steps st) (params st) (grad st),
        applied := applied st @ [grad st]\<rparr>"

fun for_each :: "('a \<Rightarrow> 's \<Rightarrow> error + 's) \<Rightarrow> 'a list \<Rightarrow> 's \<Rightarrow> error + 's" where
  "for_each body [] s = Inr s"
| "for_each body (x # xs) s = and_then (body x s) (for_each body xs)"

definition train_batch ::
  "('p, 'g::monoid_add) framework \<Rightarrow> args \<Rightarrow> int \<Rightarrow> int \<Rightarrow> nat \<Rightarrow> nat \<Rightarrow> nat \<Rightarrow>
     ('p, 'g) tstate \<Rightarrow> error + ('p, 'g) tstate" where
  "train_batch fw a local_rank global_rank num_update_steps_per_epoch epoch idx st =
     (let st1 = st\<lparr>progress_bar := Suc (progress_bar st)\<rparr>;
          loss = forward_loss fw (params st1) global_rank epoch idx;
          st2 = zero_grad st1;
          st3 = backward (backward_grad fw (params st2) global_rank epoch idx) st2;
          st4 = lr_scheduler_step st3
      in and_then (py_mod (int idx + 1) (gradient_accumulation_steps a)) (\<lambda>r.
           let st5 = (if r = 0 \<or> int idx + 1 = int num_update_steps_per_epoch
                      then optimizer_step fw st4 else st4);
               st6 = st5\<lparr>completed_steps := completed_steps st5 + 1\<rparr>
           in and_then (py_mod (int idx + 1) (logging_steps a)) (\<lambda>q.
                if q = 0
                then and_then
                       (report_metrics local_rank (Tensor loss) epoch (completed_steps st6)
                          (Some ''Training'') (reports st6))
                       (\<lambda>out. Inr (st6\<lparr>reports := out\<rparr>))
                else Inr st6)))"

definition eval_loop :: "('p, 'g) framework \<Rightarrow> int \<Rightarrow> nat \<Rightarrow> 'p \<Rightarrow> pynum" where
  "eval_loop fw global_rank num_eval_steps_per_epoch ps =
     foldl (\<lambda>eval_running_loss j.
              add_tensor eval_running_loss
                (eval_forward_loss fw ps global_rank j / real num_eval_steps_per_epoch))
       (PyInt 0) [0..<num_eval_steps_per_epoch]"

definition run_epoch ::
  "('p, 'g::monoid_add) framework \<Rightarrow> args \<Rightarrow> int \<Rightarrow> int \<Rightarrow> nat \<Rightarrow> nat \<Rightarrow> nat \<Rightarrow>
     ('p, 'g) tstate \<Rightarrow> error + ('p, 'g) tstate" where
  "run_epoch fw a local_rank global_rank num_update_steps_per_epoch num_eval_steps_per_epoch
       epoch st =
     (let st1 = st\<lparr>calls := calls st @ [SetEpoch epoch]\<rparr>
      in and_then
           (for_each (train_batch fw a local_rank global_rank num_update_steps_per_epoch epoch)
              [0..<num_update_steps_per_epoch] st1)
           (\<lambda>st2.
              let st3 = st2\<lparr>calls := calls st2 @ [Barrier]\<rparr>;
                  eval_running_loss = eval_loop fw global_rank num_eval_steps_per_epoch (params st3)
              in and_then
                   (report_metrics local_rank eval_running_loss epoch (completed_steps st3)
                      (Some ''Eval'') (reports st3))
                   (\<lambda>out. Inr (st3\<lparr>reports := out\<rparr>))))"

definition training ::
  "('p, 'g::monoid_add) framework \<Rightarrow> args \<Rightarrow> int \<Rightarrow> int \<Rightarrow> nat \<Rightarrow> nat \<Rightarrow>
     ('p, 'g) tstate \<Rightarrow> error + ('p, 'g) tstate" where
  "training fw a local_rank global_rank num_update_steps_per_epoch num_eval_steps_per_epoch st =
     and_then
       (for_each
          (run_epoch fw a local_rank global_rank num_update_steps_per_epoch
             num_eval_steps_per_epoch)
          [0..<nat (num_epochs a)] st)
       (\<lambda>st'. Inr (if global_rank = 0
                   then st'\<lparr>calls := calls st' @ [SaveCheckpoint (model_dir a @ ''/checkpoint.pt'')]\<rparr>
                   else st'))"

subsection \<open>The worker as a whole (lines 194 to 445)\<close>

text \<open>What the datasets on disk and the machine provide.\<close>

record host =
  cuda_is_available :: bool
  len_train_dataset :: nat
  len_test_dataset :: nat
  pretrained_config :: "string \<Rightarrow> esm_config"
  get_default_vocab_list :: "string list"

record ('p, 'g) outcome =
  process :: proc
  world_size_of :: int
  global_rank_of :: int
  samplers :: "sampler \<times> sampler"
  loaders :: "loader \<times> loader"
  model :: ddp
  final :: "('p, 'g) tstate"



subsection \<open>Sample inputs\<close>

text \<open>The parser's defaults on a cluster of two hosts with four GPUs each, seen from the second host.\<close>

definition example_args :: args where
  "example_args =
     \<lparr>lr = 5 / 100000, lr_scheduler_type = ''linear'', max_length = 142,
      model_dir = ''/opt/ml/model'', model_id = ''facebook/esm2_t33_650M_UR50D'',
      num_epochs = 1, num_warmup_steps = 0, per_device_eval_batch_size = 8,
      per_device_train_batch_size = 8, seed = Some 42, training_dir = ''/opt/ml/input/data/train'',
      test_dir = ''/opt/ml/input/data/test'', logging_steps = 10,
      gradient_accumulation_steps = 1, train_sample_count = None, steps_this_run = None,
      pretrain = 0, hosts = [''algo-1'', ''algo-2''], current_host = ''algo-2'', num_gpus = 4\<rparr>"

definition empty_proc :: proc where
  "empty_proc = \<lparr>environ = Map.empty, trace = []\<rparr>"



text \<open>A checkpoint configuration for the sample model, and the framework's vocabulary cut short.\<close>

definition example_config :: "string \<Rightarrow> esm_config" where
  "example_config mid =
     \<lparr>vocab_list = None, vocab_size = 33,
      other_settings = [(''hidden_size'', 1280), (''num_hidden_layers'', 33)]\<rparr>"

definition example_vocab :: "string list" where
  "example_vocab = [''<cls>'', ''<pad>'', ''<eos>'', ''<unk>'', ''L'', ''A'', ''G'', ''V'']"

text \<open>
  A toy framework on real numbers: the batch of rank \<open>r\<close> has loss \<open>2 r\<close>, batch \<open>i\<close> of
  an epoch has gradient \<open>i + 3\<close>, an optimizer step subtracts the gradient buffer from the
  parameter, and every evaluation batch has loss 0.
\<close>

definition example_framework :: "(real, real) framework" where
  "example_framework =
     \<lparr>forward_loss = (\<lambda>ps rank epoch idx. 2 * of_int rank),
      backward_grad = (\<lambda>ps rank epoch idx. real idx + 3),
      optimizer_update = (\<lambda>t ps g. ps - g),
      eval_forward_loss = (\<lambda>ps rank j. 0)\<rparr>"

definition example_state :: "(real, real) tstate" where
  "example_state =
     \<lparr>params = 0, grad = 0, applied = [], scheduler_steps = 0, progress_bar = 0,
      completed_steps = 0, reports = [], calls = []\<rparr>"


text \<open>The losses of all ranks on one training step, in rank order.\<close>

definition rank_losses :: "('p, 'g) framework \<Rightarrow> 'p \<Rightarrow> nat \<Rightarrow> nat \<Rightarrow> nat \<Rightarrow> real list" where
  "rank_losses fw ps world_size epoch idx =
     map (\<lambda>r. forward_loss fw ps (int r) epoch idx) [0..<world_size]"

section \<open>Properties\<close>

lemma and_then_simps [simp]:
  "and_then (Inl e) f = Inl e"
  "and_then (Inr v) f = f v"
  by (simp_all add: and_then_def)

lemma list_index_mem:
  "x \<in> set xs \<Longrightarrow> \<exists>i. list_index xs x = Inr i \<and> i < length xs \<and> xs ! i = x \<and> x \<notin> set (take i xs)"
proof (induction xs)
  case Nil
  then show ?case by simp
next
  case (Cons y ys)
  show ?case
  proof (cases "y = x")
    case True
    then show ?thesis by simp
  next
    case False
    with Cons.prems have "x \<in> set ys" by simp
    from Cons.IH [OF this] obtain i where
      "list_index ys x = Inr i" "i < length ys" "ys ! i = x" "x \<notin> set (take i ys)"
      by blast
    with False show ?thesis by simp
  qed
qed


lemma worker_init_result:
  assumes "list_index (hosts a) (current_host a) = Inr i"
  shows "worker_init r a p =
     Inr (int (length (hosts a)) * num_gpus a, int i * num_gpus a + r,
          \<lparr>environ = (environ p)(''WORLD_SIZE'' \<mapsto> str_int (int (length (hosts a)) * num_gpus a),
                                  ''RANK'' \<mapsto> str_int (int i * num_gpus a + r)),
           trace = trace p @ [SetEnv ''WORLD_SIZE'' (str_int (int (length (hosts a)) * num_gpus a)),
                              SetEnv ''RANK'' (str_int (int i * num_gpus a + r)),
                              InitProcessGroup ''nccl'' (int (length (hosts a)) * num_gpus a)
                                (int i * num_gpus a + r)]\<rparr>)"
  using assms
  by (simp add: worker_init_def Let_def os_environ_set_def issue_def init_process_group_def)

subsection \<open>Rank and world size\<close>

lemma str_int_examples:
  "str_int 16 = ''16''" "str_int 0 = ''0''" "str_int (- 305) = ''-305''"
  by code_simp+

text \<open>
  C1. For every list of hosts that contains the current host, every GPU count and every
  local rank, the worker computes the world size as the number of hosts times the GPU
  count and the global rank as the first position of the current host in the list times
  the GPU count plus the local rank, and it initialises the process group with the
  backend nccl, that world size and that rank.
\<close>

theorem worker_rank_and_world_size:
  assumes "current_host a \<in> set (hosts a)"
  shows "\<exists>i p'. i < length (hosts a) \<and> hosts a ! i = current_host a
           \<and> current_host a \<notin> set (take i (hosts a))
           \<and> worker_init r a p =
               Inr (int (length (hosts a)) * num_gpus a, int i * num_gpus a + r, p')
           \<and> trace p' = trace p @
               [SetEnv ''WORLD_SIZE'' (str_int (int (length (hosts a)) * num_gpus a)),
                SetEnv ''RANK'' (str_int (int i * num_gpus a + r)),
                InitProcessGroup ''nccl'' (int (length (hosts a)) * num_gpus a)
                  (int i * num_gpus a + r)]"
proof -
  from list_index_mem [OF assms] obtain i where
    i: "list_index (hosts a) (current_host a) = Inr i" "i < length (hosts a)"
       "hosts a ! i = current_host a" "current_host a \<notin> set (take i (hosts a))"
    by blast
  obtain p' where p': "worker_init r a p =
      Inr (int (length (hosts a)) * num_gpus a, int i * num_gpus a + r, p')"
    and t: "trace p' = trace p @
               [SetEnv ''WORLD_SIZE'' (str_int (int (length (hosts a)) * num_gpus a)),
                SetEnv ''RANK'' (str_int (int i * num_gpus a + r)),
                InitProcessGroup ''nccl'' (int (length (hosts a)) * num_gpus a)
                  (int i * num_gpus a + r)]"
    using worker_init_result [OF i(1), of r p] by simp
  from i(2-4) p' t show ?thesis by blast
qed

text \<open>On the second of two hosts with four GPUs, local rank 3 is rank 7 of 8.\<close>

theorem worker_rank_and_world_size_witness:
  "current_host example_args \<in> set (hosts example_args) \<and>
   (\<exists>p'. worker_init 3 example_args empty_proc = Inr (8, 7, p') \<and>
      trace p' = [SetEnv ''WORLD_SIZE'' ''8'', SetEnv ''RANK'' ''7'', InitProcessGroup ''nccl'' 8 7])"
proof -
  have h: "current_host example_args \<in> set (hosts example_args)"
    by (simp add: example_args_def)
  have s: "str_int 8 = ''8''" "str_int 7 = ''7''" by code_simp+
  from worker_rank_and_world_size [OF h, of 3 empty_proc] obtain i p' where
    "i < length (hosts example_args)" "hosts example_args ! i = current_host example_args"
    "current_host example_args \<notin> set (take i (hosts example_args))"
    "worker_init 3 example_args empty_proc =
       Inr (int (length (hosts example_args)) * num_gpus example_args,
            int i * num_gpus example_args + 3, p')"
    "trace p' = trace empty_proc @
               [SetEnv ''WORLD_SIZE'' (str_int (int (length (hosts example_args)) * num_gpus example_args)),
                SetEnv ''RANK'' (str_int (int i * num_gpus example_args + 3)),
                InitProcessGroup ''nccl'' (int (length (hosts example_args)) * num_gpus example_args)
                  (int i * num_gpus example_args + 3)]"
    by blast
  moreover from this(1,2) have "i = 1"
    by (cases i) (simp_all add: example_args_def)
  ultimately show ?thesis using h s
    by (simp add: example_args_def empty_proc_def)
qed

subsection \<open>Environment variables\<close>





subsection \<open>Data sharding\<close>

lemma DistributedSampler_Inr:
  "DistributedSampler n replicas rk shuf = Inr s \<longleftrightarrow>
     0 \<le> rk \<and> rk < replicas \<and>
     s = \<lparr>num_replicas = replicas, sampler_rank = rk, sampler_shuffle = shuf,
          num_samples = (n + nat replicas - 1) div nat replicas\<rparr>"
  by (auto simp add: DistributedSampler_def)

lemma DataLoader_Inr:
  "DataLoader bs s shuf = Inr l \<longleftrightarrow>
     \<not> shuf \<and> 0 < bs \<and> l = \<lparr>batch_size = bs, loader_sampler = s, loader_shuffle = False\<rparr>"
  by (auto simp add: DataLoader_def)

lemma ceil_div_zero_iff: "0 < k \<Longrightarrow> (n + k - 1) div k = 0 \<longleftrightarrow> n = (0::nat)"
  by (cases n) (simp_all add: div_eq_0_iff)

lemma make_loaders_Inr:
  "make_loaders n_train n_test a world_size global_rank = Inr (ts, es, trl, evl) \<longleftrightarrow>
     0 \<le> global_rank \<and> global_rank < world_size \<and> 0 < n_train \<and> 0 < n_test
     \<and> 0 < per_device_train_batch_size a \<and> 0 < per_device_eval_batch_size a
     \<and> ts = \<lparr>num_replicas = world_size, sampler_rank = global_rank, sampler_shuffle = True,
              num_samples = (n_train + nat world_size - 1) div nat world_size\<rparr>
     \<and> es = \<lparr>num_replicas = world_size, sampler_rank = global_rank, sampler_shuffle = True,
              num_samples = (n_test + nat world_size - 1) div nat world_size\<rparr>
     \<and> trl = \<lparr>batch_size = per_device_train_batch_size a, loader_sampler = ts,
              loader_shuffle = False\<rparr>
     \<and> evl = \<lparr>batch_size = per_device_eval_batch_size a, loader_sampler = es,
              loader_shuffle = False\<rparr>"
proof (cases "0 \<le> global_rank \<and> global_rank < world_size")
  case False
  then show ?thesis
    by (auto simp add: make_loaders_def DistributedSampler_def)
next
  case True
  then have k: "0 < nat world_size" by simp
  let ?ts = "\<lparr>num_replicas = world_size, sampler_rank = global_rank, sampler_shuffle = True,
              num_samples = (n_train + nat world_size - 1) div nat world_size\<rparr>"
  let ?es = "\<lparr>num_replicas = world_size, sampler_rank = global_rank, sampler_shuffle = True,
              num_samples = (n_test + nat world_size - 1) div nat world_size\<rparr>"
  have s1: "DistributedSampler n_train world_size global_rank True = Inr ?ts"
    and s2: "DistributedSampler n_test world_size global_rank True = Inr ?es"
    using True by (simp_all add: DistributedSampler_def)
  have t1: "truthy ?ts \<longleftrightarrow> 0 < n_train" and t2: "truthy ?es \<longleftrightarrow> 0 < n_test"
    using ceil_div_zero_iff [OF k] by (simp_all add: truthy_def)
  have l1: "(case train_loader_kwargs a ?ts of (bs, s, shuf) \<Rightarrow> DataLoader bs s shuf) =
      (if 0 < n_train \<and> 0 < per_device_train_batch_size a
       then Inr \<lparr>batch_size = per_device_train_batch_size a, loader_sampler = ?ts,
                 loader_shuffle = False\<rparr>
       else Inl ValueError)"
    by (simp only: train_loader_kwargs_def t1 prod.case) (simp add: DataLoader_def)
  have l2: "(case eval_loader_kwargs a ?es of (bs, s, shuf) \<Rightarrow> DataLoader bs s shuf) =
      (if 0 < n_test \<and> 0 < per_device_eval_batch_size a
       then Inr \<lparr>batch_size = per_device_eval_batch_size a, loader_sampler = ?es,
                 loader_shuffle = False\<rparr>
       else Inl ValueError)"
    by (simp only: eval_loader_kwargs_def t2 prod.case) (simp add: DataLoader_def)
  have "make_loaders n_train n_test a world_size global_rank =
      (if 0 < n_train \<and> 0 < per_device_train_batch_size a \<and> 0 < n_test
          \<and> 0 < per_device_eval_batch_size a
       then Inr (?ts, ?es,
              \<lparr>batch_size = per_device_train_batch_size a, loader_sampler = ?ts,
                loader_shuffle = False\<rparr>,
              \<lparr>batch_size = per_device_eval_batch_size a, loader_sampler = ?es,
                loader_shuffle = False\<rparr>)
       else Inl ValueError)"
    by (simp only: make_loaders_def s1 s2 and_then_simps l1 l2) simp
  with True show ?thesis by auto
qed

text \<open>
  C4. Whenever the worker gets its samplers and loaders, both samplers were built with
  num_replicas equal to the world size, rank equal to the global rank and shuffling on,
  and each loader holds its sampler and has its own shuffle flag off. The constructions
  succeed exactly when the rank lies in \<open>[0, world_size)\<close>, both datasets are non-empty
  and both batch sizes are positive.
\<close>

theorem data_sharding:
  "(make_loaders n_train n_test a world_size global_rank = Inr (ts, es, trl, evl) \<longrightarrow>
      num_replicas ts = world_size \<and> sampler_rank ts = global_rank \<and> sampler_shuffle ts
    \<and> num_replicas es = world_size \<and> sampler_rank es = global_rank \<and> sampler_shuffle es
    \<and> loader_sampler trl = ts \<and> \<not> loader_shuffle trl
    \<and> loader_sampler evl = es \<and> \<not> loader_shuffle evl)
   \<and> ((\<exists>res. make_loaders n_train n_test a world_size global_rank = Inr res) \<longleftrightarrow>
        0 \<le> global_rank \<and> global_rank < world_size \<and> 0 < n_train \<and> 0 < n_test
        \<and> 0 < per_device_train_batch_size a \<and> 0 < per_device_eval_batch_size a)"
proof (intro conjI impI)
  assume "make_loaders n_train n_test a world_size global_rank = Inr (ts, es, trl, evl)"
  then have r: "ts = \<lparr>num_replicas = world_size, sampler_rank = global_rank, sampler_shuffle = True,
              num_samples = (n_train + nat world_size - 1) div nat world_size\<rparr>"
     "es = \<lparr>num_replicas = world_size, sampler_rank = global_rank, sampler_shuffle = True,
              num_samples = (n_test + nat world_size - 1) div nat world_size\<rparr>"
     "trl = \<lparr>batch_size = per_device_train_batch_size a, loader_sampler = ts,
              loader_shuffle = False\<rparr>"
     "evl = \<lparr>batch_size = per_device_eval_batch_size a, loader_sampler = es,
              loader_shuffle = False\<rparr>"
    unfolding make_loaders_Inr by blast+
  from r(1) show "num_replicas ts = world_size" "sampler_rank ts = global_rank" "sampler_shuffle ts"
    by simp_all
  from r(2) show "num_replicas es = world_size" "sampler_rank es = global_rank" "sampler_shuffle es"
    by simp_all
  from r(3) show "loader_sampler trl = ts" "\<not> loader_shuffle trl" by simp_all
  from r(4) show "loader_sampler evl = es" "\<not> loader_shuffle evl" by simp_all
next
  show "(\<exists>res. make_loaders n_train n_test a world_size global_rank = Inr res) \<longleftrightarrow>
        0 \<le> global_rank \<and> global_rank < world_size \<and> 0 < n_train \<and> 0 < n_test
        \<and> 0 < per_device_train_batch_size a \<and> 0 < per_device_eval_batch_size a"
    using make_loaders_Inr [of n_train n_test a world_size global_rank] by auto
qed


text \<open>A hundred training and twenty test sequences, seen by rank 7 of 8.\<close>

theorem data_sharding_witness:
  "make_loaders 100 20 example_args 8 7 =
     Inr (\<lparr>num_replicas = 8, sampler_rank = 7, sampler_shuffle = True, num_samples = 13\<rparr>,
          \<lparr>num_replicas = 8, sampler_rank = 7, sampler_shuffle = True, num_samples = 3\<rparr>,
          \<lparr>batch_size = 8,
           loader_sampler = \<lparr>num_replicas = 8, sampler_rank = 7, sampler_shuffle = True, num_samples = 13\<rparr>,
           loader_shuffle = False\<rparr>,
          \<lparr>batch_size = 8,
           loader_sampler = \<lparr>num_replicas = 8, sampler_rank = 7, sampler_shuffle = True, num_samples = 3\<rparr>,
           loader_shuffle = False\<rparr>)
   \<and> (\<exists>res. make_loaders 100 20 example_args 8 7 = Inr res)
   \<and> (\<nexists>res. make_loaders 0 20 example_args 8 7 = Inr res)"
proof -
  have c: "(0::int) \<le> 7 \<and> (7::int) < 8 \<and> (0::nat) < 100 \<and> (0::nat) < 20
        \<and> 0 < per_device_train_batch_size example_args
        \<and> 0 < per_device_eval_batch_size example_args"
    by (simp add: example_args_def)
  from c data_sharding [of 100 20 example_args 8 7] obtain ts es trl evl where
    r: "make_loaders 100 20 example_args 8 7 = Inr (ts, es, trl, evl)"
    by (metis prod_cases4)
  with data_sharding [of 100 20 example_args 8 7 ts es trl evl]
  have f: "num_replicas ts = 8" "loader_sampler trl = ts" "\<not> loader_shuffle trl"
     "loader_sampler evl = es" "\<not> loader_shuffle evl"
    by simp_all
  have e: "make_loaders 100 20 example_args 8 7 =
     Inr (\<lparr>num_replicas = 8, sampler_rank = 7, sampler_shuffle = True, num_samples = 13\<rparr>,
          \<lparr>num_replicas = 8, sampler_rank = 7, sampler_shuffle = True, num_samples = 3\<rparr>,
          \<lparr>batch_size = 8,
           loader_sampler = \<lparr>num_replicas = 8, sampler_rank = 7, sampler_shuffle = True, num_samples = 13\<rparr>,
           loader_shuffle = False\<rparr>,
          \<lparr>batch_size = 8,
           loader_sampler = \<lparr>num_replicas = 8, sampler_rank = 7, sampler_shuffle = True, num_samples = 3\<rparr>,
           loader_shuffle = False\<rparr>)"
    by (simp add: make_loaders_def DistributedSampler_def DataLoader_def train_loader_kwargs_def
        eval_loader_kwargs_def truthy_def example_args_def)
  have n: "\<nexists>res. make_loaders 0 20 example_args 8 7 = Inr res"
    using data_sharding [of 0 20 example_args 8 7] by simp
  from e r n show ?thesis by blast
qed

subsection \<open>Model selection\<close>

text \<open>
  C6. With a non-zero pretrain flag the model is a freshly initialised one whose
  configuration is the checkpoint's with the vocabulary list replaced by the default list
  and the vocabulary size by the length of that list; with a zero flag the model is the
  one loaded from model_id, weights and configuration untouched.
\<close>

theorem pretrain_flag_selects_model:
  "(pretrain a \<noteq> 0 \<longrightarrow>
      load_model checkpoint_config default_vocab a =
        \<lparr>config = (checkpoint_config (model_id a))
                    \<lparr>vocab_list := Some default_vocab, vocab_size := int (length default_vocab)\<rparr>,
         weights = RandomInit\<rparr>)
   \<and> (pretrain a = 0 \<longrightarrow>
      load_model checkpoint_config default_vocab a =
        \<lparr>config = checkpoint_config (model_id a), weights = Pretrained (model_id a)\<rparr>)"
  by (simp add: load_model_def from_pretrained_def EsmForMaskedLM_def Let_def)

theorem pretrain_flag_selects_model_witness:
  "pretrain (example_args\<lparr>pretrain := 1\<rparr>) \<noteq> 0
   \<and> weights (load_model example_config example_vocab (example_args\<lparr>pretrain := 1\<rparr>)) = RandomInit
   \<and> vocab_list (config (load_model example_config example_vocab (example_args\<lparr>pretrain := 1\<rparr>)))
       = Some example_vocab
   \<and> vocab_size (config (load_model example_config example_vocab (example_args\<lparr>pretrain := 1\<rparr>))) = 8
   \<and> pretrain example_args = 0
   \<and> weights (load_model example_config example_vocab example_args)
       = Pretrained ''facebook/esm2_t33_650M_UR50D''
   \<and> vocab_size (config (load_model example_config example_vocab example_args)) = 33"
proof -
  have h1: "pretrain (example_args\<lparr>pretrain := 1\<rparr>) \<noteq> 0" by simp
  have h0: "pretrain example_args = 0" by (simp add: example_args_def)
  have l: "int (length example_vocab) = 8" by (simp add: example_vocab_def)
  have m: "model_id example_args = ''facebook/esm2_t33_650M_UR50D''"
    by (simp add: example_args_def)
  from pretrain_flag_selects_model [of "example_args\<lparr>pretrain := 1\<rparr>" example_config example_vocab] h1
  have a: "load_model example_config example_vocab (example_args\<lparr>pretrain := 1\<rparr>) =
        \<lparr>config = (example_config (model_id example_args))
                    \<lparr>vocab_list := Some example_vocab, vocab_size := int (length example_vocab)\<rparr>,
         weights = RandomInit\<rparr>" by simp
  from pretrain_flag_selects_model [of example_args example_config example_vocab] h0
  have b: "load_model example_config example_vocab example_args =
        \<lparr>config = example_config (model_id example_args), weights = Pretrained (model_id example_args)\<rparr>"
    by simp
  show ?thesis unfolding a b using h1 h0 l m by (simp add: example_config_def)
qed

subsection \<open>Perplexity\<close>


lemma DBL_MAX_ge_1: "1 \<le> DBL_MAX"
  by (simp add: DBL_MAX_def)

lemma calc_perplexity_value:
  "calc_perplexity loss = Inr (if exp loss > DBL_MAX then PosInf else Finite (exp loss))"
  by (simp add: calc_perplexity_def try_except_def math_exp_def)

lemma calc_perplexity_zero: "calc_perplexity 0 = Inr (Finite 1)"
  using DBL_MAX_ge_1 by (simp add: calc_perplexity_value)



subsection \<open>One training batch\<close>

lemma train_batch_result:
  assumes "gradient_accumulation_steps a \<noteq> 0" and "logging_steps a \<noteq> 0"
  shows "train_batch fw a local_rank global_rank n epoch idx st =
     Inr (st\<lparr>progress_bar := Suc (progress_bar st),
             grad := backward_grad fw (params st) global_rank epoch idx,
             scheduler_steps := Suc (scheduler_steps st),
             params :=
               (if (int idx + 1) mod gradient_accumulation_steps a = 0 \<or> int idx + 1 = int n
                then optimizer_update fw (Suc (scheduler_steps st)) (params st)
                       (backward_grad fw (params st) global_rank epoch idx)
                else params st),
             applied := applied st @
               (if (int idx + 1) mod gradient_accumulation_steps a = 0 \<or> int idx + 1 = int n
                then [backward_grad fw (params st) global_rank epoch idx] else []),
             completed_steps := completed_steps st + 1,
             reports := reports st @
               (if (int idx + 1) mod logging_steps a = 0 \<and> local_rank = 0
                then [\<lparr>report_epoch = epoch, report_step = completed_steps st + 1,
                       report_prefix = ''Training '',
                       report_loss = forward_loss fw (params st) global_rank epoch idx,
                       report_perplexity =
                         (if exp (forward_loss fw (params st) global_rank epoch idx) > DBL_MAX
                          then PosInf
                          else Finite (exp (forward_loss fw (params st) global_rank epoch idx)))\<rparr>]
                else [])\<rparr>)"
  using assms
  by (simp add: train_batch_def py_mod_def Let_def zero_grad_def backward_def
      lr_scheduler_step_def optimizer_step_def report_metrics_def calc_perplexity_value)




subsection \<open>Optimizer steps and gradient accumulation\<close>

text \<open>
  An optimizer step is taken exactly when the batch number is a multiple of
  gradient_accumulation_steps or the batch is the last of its epoch. The gradient it
  uses is the gradient of that batch alone, because the buffer is cleared before every
  backward pass.
\<close>

lemma optimizer_step_condition:
  assumes "gradient_accumulation_steps a \<noteq> 0" and "logging_steps a \<noteq> 0"
  shows "\<exists>st'. train_batch fw a local_rank global_rank n epoch idx st = Inr st'
     \<and> applied st' = applied st @
          (if (int idx + 1) mod gradient_accumulation_steps a = 0 \<or> int idx + 1 = int n
           then [backward_grad fw (params st) global_rank epoch idx] else [])
     \<and> grad st' = backward_grad fw (params st) global_rank epoch idx"
  by (simp add: train_batch_result [OF assms])

text \<open>
  C2. With gradient_accumulation_steps 2 and an epoch of two batches whose gradients are
  3 and 4, the loop takes one optimizer step, after the second batch, and that step uses
  the gradient 4 of the second batch, not the sum 7 of the two.
\<close>

theorem accumulation_keeps_last_gradient_only:
  "\<exists>st. for_each
          (train_batch example_framework (example_args\<lparr>gradient_accumulation_steps := 2\<rparr>) 0 0 2 0)
          [0..<2] example_state = Inr st
      \<and> applied st = [4] \<and> params st = - 4
      \<and> backward_grad example_framework (params example_state) 0 0 0 = 3
      \<and> backward_grad example_framework (params example_state) 0 0 1 = 4"
  by (simp add: upt_rec train_batch_def py_mod_def Let_def zero_grad_def backward_def
      lr_scheduler_step_def optimizer_step_def example_args_def example_state_def
      example_framework_def)

subsection \<open>Periodic reports\<close>

text \<open>
  C3, as the script has it. On every batch whose number within the epoch is a multiple of
  logging_steps the worker calls \<open>report_metrics\<close> with the loss of its own batch. A line
  is printed only by a process of local rank 0, and it shows that local loss and its
  perplexity; no value of another rank enters it.
\<close>

theorem reports_are_periodic_and_local:
  assumes "gradient_accumulation_steps a \<noteq> 0" and "logging_steps a \<noteq> 0"
  shows "\<exists>st'. train_batch fw a local_rank global_rank n epoch idx st = Inr st'
     \<and> reports st' = reports st @
          (if (int idx + 1) mod logging_steps a = 0 \<and> local_rank = 0
           then [\<lparr>report_epoch = epoch, report_step = completed_steps st + 1,
                  report_prefix = ''Training '',
                  report_loss = forward_loss fw (params st) global_rank epoch idx,
                  report_perplexity =
                    (if exp (forward_loss fw (params st) global_rank epoch idx) > DBL_MAX
                     then PosInf
                     else Finite (exp (forward_loss fw (params st) global_rank epoch idx)))\<rparr>]
           else [])"
  by (simp add: train_batch_result [OF assms])

text \<open>Every batch is reported with logging_steps 1; rank 0 of the toy framework has loss 0.\<close>

theorem reports_are_periodic_and_local_witness:
  "gradient_accumulation_steps (example_args\<lparr>logging_steps := 1\<rparr>) \<noteq> 0
   \<and> logging_steps (example_args\<lparr>logging_steps := 1\<rparr>) \<noteq> 0
   \<and> (\<exists>st'. train_batch example_framework (example_args\<lparr>logging_steps := 1\<rparr>) 0 0 2 0 0
              example_state = Inr st'
         \<and> reports st' = [\<lparr>report_epoch = 0, report_step = 1, report_prefix = ''Training '',
                            report_loss = 0, report_perplexity = Finite 1\<rparr>])"
proof -
  let ?a = "example_args\<lparr>logging_steps := 1\<rparr>"
  have h1: "gradient_accumulation_steps ?a \<noteq> 0" by (simp add: example_args_def)
  have h2: "logging_steps ?a \<noteq> 0" by simp
  from reports_are_periodic_and_local [OF h1 h2, of example_framework 0 0 2 0 0 example_state]
  have "\<exists>st'. train_batch example_framework ?a 0 0 2 0 0 example_state = Inr st'
         \<and> reports st' = [\<lparr>report_epoch = 0, report_step = 1, report_prefix = ''Training '',
                            report_loss = 0, report_perplexity = Finite 1\<rparr>]"
    using DBL_MAX_ge_1 by (simp add: example_framework_def example_state_def)
  with h1 h2 show ?thesis by blast
qed

text \<open>
  Two processes on one host, with losses 0 and 2 on the same step: the only line printed
  is that of local rank 0 and shows 0, which is neither the sum nor the mean of the two
  losses; the process of rank 1 prints nothing.
\<close>

theorem reports_not_aggregated_counterexample:
  "rank_losses example_framework (params example_state) 2 0 0 = [0, 2]
   \<and> (\<exists>st0 st1.
        train_batch example_framework (example_args\<lparr>logging_steps := 1\<rparr>) 0 0 2 0 0
          example_state = Inr st0
      \<and> train_batch example_framework (example_args\<lparr>logging_steps := 1\<rparr>) 1 1 2 0 0
          example_state = Inr st1
      \<and> map report_loss (reports st0) = [0]
      \<and> reports st1 = []
      \<and> map report_loss (reports st0) \<noteq>
          [sum_list (rank_losses example_framework (params example_state) 2 0 0)]
      \<and> map report_loss (reports st0) \<noteq>
          [sum_list (rank_losses example_framework (params example_state) 2 0 0) / 2])"
proof -
  let ?a = "example_args\<lparr>logging_steps := 1\<rparr>"
  have h1: "gradient_accumulation_steps ?a \<noteq> 0" by (simp add: example_args_def)
  have h2: "logging_steps ?a \<noteq> 0" by simp
  have l: "rank_losses example_framework (params example_state) 2 0 0 = [0, 2]"
    by (simp add: rank_losses_def example_framework_def upt_rec)
  show ?thesis
    unfolding l train_batch_result [OF h1 h2]
    by (simp add: example_framework_def example_state_def)
qed

subsection \<open>Exceptions\<close>







subsection \<open>The loop as a whole\<close>








lemma eval_loop_empty: "eval_loop fw global_rank 0 ps = PyInt 0"
  by (simp add: eval_loop_def)





lemma training_no_epochs:
  assumes "num_epochs a \<le> 0"
  shows "training fw a local_rank global_rank n m st =
     Inr (if global_rank = 0
          then st\<lparr>calls := calls st @ [SaveCheckpoint (model_dir a @ ''/checkpoint.pt'')]\<rparr>
          else st)"
  using assms by (simp add: training_def)

subsection \<open>The worker as a whole\<close>





subsection \<open>The step limit\<close>











subsection \<open>Spawning and device pinning\<close>



end
